theory Spec2Isabelle
  imports Main "HOL-Library.Sublist"
begin

section \<open>The NCI PDC query forwarder (\<open>src/index.ts\<close>)\<close>

text \<open>
  The repository is one TypeScript module: the class \<open>NciPdcMCP\<close> with the private method
  \<open>executePdcGraphQLQuery\<close> (lines 64 to 159) and the default export's \<open>fetch\<close> handler
  (lines 176 to 198). Both are embedded here as functions. What the module takes from its
  platform (the global \<open>fetch\<close>, \<open>JSON.parse\<close> behind \<open>response.json()\<close>,
  \<open>JSON.stringify\<close>) is not code of the repository and is a parameter of the model,
  collected in the record \<open>runtime\<close>. The reading of a response body follows the Fetch
  standard: a body is read once. The calls of \<open>console.error\<close> write diagnostics only
  and return nothing that the code reads; they are left out.
\<close>

subsection \<open>Values\<close>

text \<open>
  JSON values as JavaScript holds them after \<open>JSON.parse\<close>. An object keeps its members in
  insertion order. Numbers are kept as integers: the only number the module itself builds is
  \<open>response.status\<close>.
\<close>

datatype json =
    JNull
  | JBool bool
  | JNum int
  | JStr string
  | JArr "json list"
  | JObj "(string \<times> json) list"

text \<open>
  What a \<open>catch\<close> clause can receive. \<open>ErrorInstance m\<close> is a value for which
  \<open>error instanceof Error\<close> holds, with \<open>error.message = m\<close>; \<open>NonError s\<close> is any other
  thrown value, with \<open>String(error) = s\<close>.
\<close>

datatype thrown = ErrorInstance string | NonError string

text \<open>The second argument of the global \<open>fetch\<close> (lines 79 to 83).\<close>

record request_init =
  rq_method :: string
  rq_headers :: "(string \<times> string) list"
  rq_body :: string

text \<open>
  The parts of a \<open>Response\<close> that the method reads: \<open>response.status\<close>, the value of
  \<open>response.headers.get("content-type")\<close> (\<open>None\<close> is JavaScript's \<open>null\<close>) and the
  body. A response can have no body at all (\<open>response.body\<close> is \<open>null\<close>, as for a status
  204): this is \<open>None\<close>. \<open>Some t\<close> is a body whose text is \<open>t\<close>, which may be empty.
\<close>

record response =
  status :: nat
  content_type :: "string option"
  body :: "string option"

text \<open>The raw text of the body; a response without a body has the empty text.\<close>

definition body_text :: "response \<Rightarrow> string" where
  "body_text r = (case body r of None \<Rightarrow> [] | Some t \<Rightarrow> t)"

text \<open>
  The platform. \<open>global_fetch\<close> is the global \<open>fetch\<close>: it rejects (\<open>Inl\<close>) or resolves with
  a response. \<open>json_parse\<close> is \<open>JSON.parse\<close> (\<open>None\<close>: the text is not JSON) and
  \<open>json_stringify\<close> is \<open>JSON.stringify\<close>. \<open>body_used_error\<close> is the \<open>TypeError\<close> with
  which the runtime rejects the reading of a body that has been read before; the Fetch
  standard prescribes the rejection and leaves the message to the runtime.
\<close>

record runtime =
  global_fetch :: "string \<Rightarrow> request_init \<Rightarrow> thrown + response"
  json_parse :: "string \<Rightarrow> json option"
  json_stringify :: "json \<Rightarrow> string"
  body_used_error :: thrown

subsection \<open>String operations of JavaScript used by the module\<close>

text \<open>\<open>s.slice(start, end)\<close> for indices that are not negative.\<close>

definition slice :: "string \<Rightarrow> nat \<Rightarrow> nat \<Rightarrow> string" where
  "slice s start end =
     (let len = length s; from = min start len; to = min end len
      in take (to - from) (drop from s))"

text \<open>\<open>s.includes(sub)\<close>: \<open>sub\<close> occurs in \<open>s\<close> as a contiguous run of characters.\<close>

fun str_includes :: "string \<Rightarrow> string \<Rightarrow> bool" where
  "str_includes [] sub = (sub = [])"
| "str_includes (c # cs) sub = (prefix sub (c # cs) \<or> str_includes cs sub)"

text \<open>\<open>s.startsWith(p)\<close>.\<close>

definition startsWith :: "string \<Rightarrow> string \<Rightarrow> bool" where
  "startsWith s p = prefix p s"

text \<open>A number inside a template literal: the decimal digits of a natural number.\<close>

definition digit_char :: "nat \<Rightarrow> char" where
  "digit_char d = ''0123456789'' ! d"

fun string_of_nat :: "nat \<Rightarrow> string" where
  "string_of_nat n =
     (if n < 10 then [digit_char n]
      else string_of_nat (n div 10) @ [digit_char (n mod 10)])"

declare string_of_nat.simps [simp del]

subsection \<open>Reading a response\<close>

text \<open>
  \<open>response.ok\<close>: the status is in the range 200 to 299.
\<close>

definition ok :: "response \<Rightarrow> bool" where
  "ok r = (200 \<le> status r \<and> status r \<le> 299)"

text \<open>
  Reading the body, as the Fetch standard has it. The flag is \<open>response.bodyUsed\<close> before
  the call; the result is the outcome of the read and the flag after it. A response
  without a body is never used up: every read gives the empty text. A body can be read
  once: the first read gives its text and marks it used, every later read rejects.
\<close>

definition read_body :: "runtime \<Rightarrow> response \<Rightarrow> bool \<Rightarrow> (thrown + string) \<times> bool" where
  "read_body rt r used =
     (case body r of
        None \<Rightarrow> (Inr [], used)
      | Some t \<Rightarrow>
          if used then (Inl (body_used_error rt), used)
          else (Inr t, True))"

text \<open>\<open>await response.text()\<close>.\<close>

definition response_text :: "runtime \<Rightarrow> response \<Rightarrow> bool \<Rightarrow> (thrown + string) \<times> bool" where
  "response_text rt r used = read_body rt r used"

text \<open>
  \<open>await response.json()\<close>: the body is read, then parsed. \<open>None\<close> is a rejected promise;
  the method binds the rejection to \<open>e\<close> (line 92) and never reads it, so its value is not
  kept.
\<close>

definition response_json :: "runtime \<Rightarrow> response \<Rightarrow> bool \<Rightarrow> json option \<times> bool" where
  "response_json rt r used =
     (case read_body rt r used of
        (Inl e, used') \<Rightarrow> (None, used')
      | (Inr t, used') \<Rightarrow> (json_parse rt t, used'))"

subsection \<open>\<open>executePdcGraphQLQuery\<close>\<close>

definition PDC_GRAPHQL_ENDPOINT :: string where
  "PDC_GRAPHQL_ENDPOINT = ''https://pdc.cancer.gov/graphql''"

text \<open>Lines 66 to 69.\<close>

definition headers :: "(string \<times> string) list" where
  "headers =
     [(''Content-Type'', ''application/json''),
      (''User-Agent'',
       ''MCPNciPdcServer/0.1.0 (ModelContextProtocol; +https://modelcontextprotocol.io)'')]"

text \<open>
  Lines 71 to 74. \<open>variables\<close> is \<open>Record<string, any> | undefined\<close>; \<open>None\<close> is
  \<open>undefined\<close>. Every object is truthy, the empty one too, so \<open>if (variables)\<close> asks
  whether the argument is there.
\<close>

definition bodyData :: "string \<Rightarrow> (string \<times> json) list option \<Rightarrow> json" where
  "bodyData query variables =
     (case variables of
        None \<Rightarrow> JObj [(''query'', JStr query)]
      | Some vs \<Rightarrow> JObj [(''query'', JStr query), (''variables'', JObj vs)])"

text \<open>The second argument of the call of \<open>fetch\<close>, lines 79 to 83.\<close>

definition outbound_request ::
  "runtime \<Rightarrow> string \<Rightarrow> (string \<times> json) list option \<Rightarrow> request_init" where
  "outbound_request rt query variables =
     \<lparr> rq_method = ''POST'',
       rq_headers = headers,
       rq_body = json_stringify rt (bodyData query variables) \<rparr>"

text \<open>
  The test of line 89, \<open>contentType && contentType.includes("application/json")\<close>:
  \<open>null\<close> and the empty string are falsy.
\<close>

definition declares_json :: "string option \<Rightarrow> bool" where
  "declares_json contentType =
     (case contentType of
        None \<Rightarrow> False
      | Some s \<Rightarrow> s \<noteq> [] \<and> str_includes s ''application/json'')"

text \<open>The three envelopes built from a response (lines 96 to 104, 110 to 119, 127 to 135).\<close>

definition parse_failure_envelope :: "response \<Rightarrow> string \<Rightarrow> json" where
  "parse_failure_envelope r errorText =
     JObj [(''errors'', JArr [JObj
       [(''message'', JStr (''NCI PDC API Error '' @ string_of_nat (status r)
                             @ '': Failed to parse JSON response.'')),
        (''extensions'', JObj
          [(''statusCode'', JNum (int (status r))),
           (''responseText'', JStr (slice errorText 0 1000))])]])]"

definition non_json_envelope :: "response \<Rightarrow> string \<Rightarrow> json" where
  "non_json_envelope r errorText =
     JObj [(''errors'', JArr [JObj
       [(''message'', JStr (''NCI PDC API Error '' @ string_of_nat (status r)
                             @ '': Non-JSON response received.'')),
        (''extensions'', JObj
          [(''statusCode'', JNum (int (status r))),
           (''contentType'', (case content_type r of None \<Rightarrow> JNull | Some s \<Rightarrow> JStr s)),
           (''responseText'', JStr (slice errorText 0 1000))])]])]"

definition http_error_envelope :: "response \<Rightarrow> json \<Rightarrow> json" where
  "http_error_envelope r responseBody =
     JObj [(''errors'', JArr [JObj
       [(''message'', JStr (''NCI PDC API HTTP Error '' @ string_of_nat (status r))),
        (''extensions'', JObj
          [(''statusCode'', JNum (int (status r))),
           (''responseBody'', responseBody)])]])]"

text \<open>The envelope of the \<open>catch\<close> block, lines 144 to 157.\<close>

definition client_error_envelope :: "thrown \<Rightarrow> json" where
  "client_error_envelope error =
     (let errorMessage = (case error of ErrorInstance m \<Rightarrow> m | NonError s \<Rightarrow> s)
      in JObj [(''errors'', JArr [JObj
           [(''message'', JStr errorMessage),
            (''extensions'', JObj [(''clientError'', JBool True)])]])])"

text \<open>
  Lines 85 to 139, what the method does with the response that \<open>fetch\<close> resolved with.
  \<open>Inl\<close> is an exception leaving the \<open>try\<close> block, \<open>Inr\<close> a \<open>return\<close>.
\<close>

definition classify :: "runtime \<Rightarrow> response \<Rightarrow> thrown + json" where
  "classify rt r =
     (let contentType = content_type r in
      if declares_json contentType then
        (case response_json rt r False of
           (None, used) \<Rightarrow>
             (case response_text rt r used of
                (Inl e, _) \<Rightarrow> Inl e
              | (Inr errorText, _) \<Rightarrow> Inr (parse_failure_envelope r errorText))
         | (Some responseBody, _) \<Rightarrow>
             if \<not> ok r then Inr (http_error_envelope r responseBody)
             else Inr responseBody)
      else
        (case response_text rt r False of
           (Inl e, _) \<Rightarrow> Inl e
         | (Inr errorText, _) \<Rightarrow> Inr (non_json_envelope r errorText)))"

text \<open>The \<open>try\<close> block, lines 66 to 139.\<close>

definition try_block ::
  "runtime \<Rightarrow> string \<Rightarrow> (string \<times> json) list option \<Rightarrow> thrown + json" where
  "try_block rt query variables =
     (case global_fetch rt PDC_GRAPHQL_ENDPOINT (outbound_request rt query variables) of
        Inl e \<Rightarrow> Inl e
      | Inr r \<Rightarrow> classify rt r)"

text \<open>
  The method. Its result is again a sum, so that an exception reaching the caller would be a
  value \<open>Inl\<close> of the model.
\<close>

definition executePdcGraphQLQuery ::
  "runtime \<Rightarrow> string \<Rightarrow> (string \<times> json) list option \<Rightarrow> thrown + json" where
  "executePdcGraphQLQuery rt query variables =
     (case try_block rt query variables of
        Inr result \<Rightarrow> Inr result
      | Inl error \<Rightarrow> Inr (client_error_envelope error))"

subsection \<open>The \<open>fetch\<close> handler of the default export\<close>

text \<open>
  The handler reads \<open>url.pathname\<close> of the request's URL and nothing else. It either hands
  the request to \<open>NciPdcMCP.serveSSE("/sse")\<close>, which is the framework's, or answers itself.
\<close>

record http_reply =
  reply_status :: nat
  reply_headers :: "(string \<times> string) list"
  reply_body :: string

datatype handled = ServeSSE string | Reply http_reply

definition not_found_reply :: http_reply where
  "not_found_reply =
     \<lparr> reply_status = 404,
       reply_headers = [(''Content-Type'', ''text/plain'')],
       reply_body = ''NCI PDC MCP Server - Path not found.\<newline>Available MCP paths:\<newline>- /sse (for Server-Sent Events transport)'' \<rparr>"

definition fetch :: "string \<Rightarrow> handled" where
  "fetch pathname =
     (if pathname = ''/sse'' \<or> startsWith pathname ''/sse/'' then ServeSSE ''/sse''
      else Reply not_found_reply)"

subsection \<open>Reading an envelope\<close>

text \<open>Member lookup in an object; \<open>None\<close> when the value is no object or has no such member.\<close>

definition member :: "string \<Rightarrow> json \<Rightarrow> json option" where
  "member k j = (case j of JObj fs \<Rightarrow> map_of fs k | _ \<Rightarrow> None)"

text \<open>The value carries an \<open>errors\<close> array.\<close>

definition carries_errors :: "json \<Rightarrow> bool" where
  "carries_errors j = (case member ''errors'' j of Some (JArr _) \<Rightarrow> True | _ \<Rightarrow> False)"


text \<open>
  The one outcome of the upstream call that the method passes through: a response with a
  status in the success range, a content type that declares JSON and a body that parses.
\<close>

definition usable_success :: "runtime \<Rightarrow> thrown + response \<Rightarrow> bool" where
  "usable_success rt outcome =
     (case outcome of
        Inl _ \<Rightarrow> False
      | Inr r \<Rightarrow> ok r \<and> declares_json (content_type r) \<and> json_parse rt (body_text r) \<noteq> None)"

subsection \<open>A test double of the platform\<close>

text \<open>
  A parser that knows the two bodies of the specification's examples, a serializer that
  writes the query and marks the presence of variables, a runtime whose \<open>fetch\<close> has a
  fixed outcome, and a runtime whose \<open>fetch\<close> answers one request only.
\<close>

definition sample_parse :: "string \<Rightarrow> json option" where
  \<open>sample_parse s =
     (if s = ''{"data": {"x": 1}}'' then Some (JObj [(''data'', JObj [(''x'', JNum 1)])])
      else if s = ''{"message": "boom"}'' then Some (JObj [(''message'', JStr ''boom'')])
      else None)\<close>

definition sample_stringify :: "json \<Rightarrow> string" where
  "sample_stringify j =
     (case member ''query'' j of
        Some (JStr q) \<Rightarrow>
          q @ (case member ''variables'' j of None \<Rightarrow> [] | Some _ \<Rightarrow> '' with variables'')
      | _ \<Rightarrow> [])"

definition sample_runtime :: "thrown + response \<Rightarrow> runtime" where
  "sample_runtime outcome =
     \<lparr> global_fetch = (\<lambda>url init. outcome),
       json_parse = sample_parse,
       json_stringify = sample_stringify,
       body_used_error = ErrorInstance ''Body has already been used'' \<rparr>"

definition selective_runtime :: runtime where
  \<open>selective_runtime =
     \<lparr> global_fetch = (\<lambda>url init.
         if url = ''https://pdc.cancer.gov/graphql'' \<and> rq_method init = ''POST''
            \<and> rq_body init = ''{ x } with variables''
         then Inr \<lparr>status = 200, content_type = Some ''application/json'',
                   body = Some ''{"data": {"x": 1}}''\<rparr>
         else Inl (NonError ''unexpected request'')),
       json_parse = sample_parse,
       json_stringify = sample_stringify,
       body_used_error = ErrorInstance ''Body has already been used'' \<rparr>\<close>

section \<open>Properties\<close>

subsection \<open>Helper facts\<close>

lemma slice_0: "slice s 0 n = take n s"
  by (cases "n \<le> length s") (simp_all add: slice_def Let_def min_def)


lemma str_includes_sublist: "str_includes s sub = sublist sub s"
  by (induction s) (simp_all add: sublist_Cons_right)

lemma body_text_literal [simp]:
  "body_text \<lparr>status = n, content_type = c, body = b\<rparr> =
     (case b of None \<Rightarrow> [] | Some t \<Rightarrow> t)"
  by (simp add: body_text_def)

lemma response_json_fresh:
  "response_json rt r False = (json_parse rt (body_text r), body r \<noteq> None)"
  by (simp add: response_json_def read_body_def body_text_def split: option.splits)

lemma response_text_fresh:
  "response_text rt r False = (Inr (body_text r), body r \<noteq> None)"
  by (simp add: response_text_def read_body_def body_text_def split: option.splits)

lemma classify_non_json:
  "\<not> declares_json (content_type r) \<Longrightarrow>
   classify rt r = Inr (non_json_envelope r (body_text r))"
  by (simp add: classify_def response_text_fresh)

lemma classify_parsed:
  "declares_json (content_type r) \<Longrightarrow> json_parse rt (body_text r) = Some j \<Longrightarrow>
   classify rt r = (if ok r then Inr j else Inr (http_error_envelope r j))"
  by (simp add: classify_def response_json_fresh)

text \<open>
  When the parse fails, the handler of line 92 reads the body a second time (line 94). Only
  a response without a body lets it: every other body has been used up by line 91, the
  read rejects and the exception leaves the \<open>try\<close> block.
\<close>

lemma classify_unparsed:
  "declares_json (content_type r) \<Longrightarrow> json_parse rt (body_text r) = None \<Longrightarrow>
   classify rt r =
     (case body r of
        None \<Rightarrow> Inr (parse_failure_envelope r [])
      | Some t \<Rightarrow> Inl (body_used_error rt))"
  by (cases "body r")
     (simp_all add: classify_def response_json_def response_text_def read_body_def
        body_text_def)

lemma execute_rejected:
  "global_fetch rt PDC_GRAPHQL_ENDPOINT (outbound_request rt query variables) = Inl e \<Longrightarrow>
   executePdcGraphQLQuery rt query variables = Inr (client_error_envelope e)"
  by (simp add: executePdcGraphQLQuery_def try_block_def)

lemma execute_resolved:
  "global_fetch rt PDC_GRAPHQL_ENDPOINT (outbound_request rt query variables) = Inr r \<Longrightarrow>
   executePdcGraphQLQuery rt query variables =
     (case classify rt r of Inr result \<Rightarrow> Inr result
      | Inl error \<Rightarrow> Inr (client_error_envelope error))"
  by (simp add: executePdcGraphQLQuery_def try_block_def)

text \<open>With the test double, \<open>fetch\<close> has the outcome it was built with.\<close>

lemma sample_fetch:
  "global_fetch (sample_runtime outcome) url init = outcome"
  "json_parse (sample_runtime outcome) = sample_parse"
  "body_used_error (sample_runtime outcome) = ErrorInstance ''Body has already been used''"
  by (simp_all add: sample_runtime_def)

lemma declares_json_iff:
  "declares_json contentType \<longleftrightarrow>
     (\<exists>s pre post. contentType = Some s \<and> s = pre @ ''application/json'' @ post)"
  by (cases contentType) (auto simp add: declares_json_def str_includes_sublist sublist_def)

lemma carries_errors_envelopes:
  "carries_errors (client_error_envelope e)"
  "carries_errors (non_json_envelope r t)"
  "carries_errors (parse_failure_envelope r t)"
  "carries_errors (http_error_envelope r j)"
  by (simp_all add: carries_errors_def member_def client_error_envelope_def
      non_json_envelope_def parse_failure_envelope_def http_error_envelope_def)


lemma string_of_nat_200: "string_of_nat 200 = ''200''"
  by code_simp

lemma string_of_nat_404: "string_of_nat 404 = ''404''"
  by code_simp

lemma string_of_nat_500: "string_of_nat 500 = ''500''"
  by code_simp

lemma string_of_nat_502: "string_of_nat 502 = ''502''"
  by code_simp

lemma text_html_not_json: "\<not> declares_json (Some ''text/html'')"
  by (simp add: declares_json_def)

lemma text_json_not_json: "\<not> declares_json (Some ''text/json'')"
  by (simp add: declares_json_def)

lemma application_json_is_json: "declares_json (Some ''application/json'')"
  by (simp add: declares_json_def)

subsection \<open>The forwarder never throws\<close>

text \<open>
  C1. For every query, every optional variables mapping and every outcome of the upstream
  call (a response of any status, content type and body, or a thrown exception),
  \<open>executePdcGraphQLQuery\<close> returns a value and throws nothing to its caller; on every
  outcome other than the usable success the value is an object carrying an \<open>errors\<close>
  array.
\<close>

theorem never_throws:
  "\<exists>env. executePdcGraphQLQuery rt query variables = Inr env \<and>
     (\<not> usable_success rt
          (global_fetch rt PDC_GRAPHQL_ENDPOINT (outbound_request rt query variables))
      \<longrightarrow> carries_errors env)"
proof (cases "global_fetch rt PDC_GRAPHQL_ENDPOINT (outbound_request rt query variables)")
  case (Inl e)
  then show ?thesis
    by (simp add: execute_rejected carries_errors_envelopes)
next
  case (Inr r)
  show ?thesis
  proof (cases "declares_json (content_type r)")
    case False
    with Inr show ?thesis
      by (simp add: execute_resolved classify_non_json carries_errors_envelopes)
  next
    case True
    show ?thesis
    proof (cases "json_parse rt (body_text r)")
      case None
      with Inr True show ?thesis
        by (simp add: execute_resolved classify_unparsed carries_errors_envelopes
            split: option.splits)
    next
      case (Some j)
      with Inr True show ?thesis
        by (simp add: execute_resolved classify_parsed carries_errors_envelopes
            usable_success_def)
    qed
  qed
qed

theorem never_throws_witness:
  "\<exists>env. executePdcGraphQLQuery
            (sample_runtime (Inr \<lparr>status = 503, content_type = None, body = Some ''busy''\<rparr>)) ''{ x }'' None = Inr env
         \<and> carries_errors env"
  using never_throws
    [of "sample_runtime (Inr \<lparr>status = 503, content_type = None, body = Some ''busy''\<rparr>)"
        "''{ x }''" None]
  by (simp add: sample_fetch usable_success_def declares_json_def)

subsection \<open>The pass-through\<close>

text \<open>
  C2. A response with a status in the range 200 to 299, a content type that declares JSON
  and a body that parses as JSON makes the method return the parsed body itself, whatever
  it holds.
\<close>

theorem success_pass_through:
  assumes "global_fetch rt PDC_GRAPHQL_ENDPOINT (outbound_request rt query variables) = Inr r"
    and "ok r"
    and "declares_json (content_type r)"
    and "json_parse rt (body_text r) = Some j"
  shows "executePdcGraphQLQuery rt query variables = Inr j"
  using assms by (simp add: execute_resolved classify_parsed)

text \<open>The example of the specification: status 200 and the body \<open>{"data": {"x": 1}}\<close>.\<close>

theorem success_pass_through_witness:
  \<open>executePdcGraphQLQuery
     (sample_runtime
        (Inr \<lparr>status = 200, content_type = Some ''application/json'',
              body = Some ''{"data": {"x": 1}}''\<rparr>))
     ''{ x }'' None =
   Inr (JObj [(''data'', JObj [(''x'', JNum 1)])])\<close>
  by (rule success_pass_through
        [where r = \<open>\<lparr>status = 200, content_type = Some ''application/json'',
                      body = Some ''{"data": {"x": 1}}''\<rparr>\<close>])
     (simp_all add: sample_fetch ok_def application_json_is_json sample_parse_def)

subsection \<open>The synthesized envelopes\<close>

text \<open>
  C3, as the specification states it, at status 500 with the JSON body
  \<open>{"message": "boom"}\<close>: the message of the error is \<open>NCI PDC API HTTP Error 500\<close>, not
  \<open>API Error 500\<close>.
\<close>

theorem http_error_message_counterexample:
  \<open>executePdcGraphQLQuery
     (sample_runtime
        (Inr \<lparr>status = 500, content_type = Some ''application/json'',
              body = Some ''{"message": "boom"}''\<rparr>))
     ''{ x }'' None =
   Inr (JObj [(''errors'', JArr [JObj
     [(''message'', JStr ''NCI PDC API HTTP Error 500''),
      (''extensions'', JObj
        [(''statusCode'', JNum 500),
         (''responseBody'', JObj [(''message'', JStr ''boom'')])])]])])
   \<and>
   executePdcGraphQLQuery
     (sample_runtime
        (Inr \<lparr>status = 500, content_type = Some ''application/json'',
              body = Some ''{"message": "boom"}''\<rparr>))
     ''{ x }'' None \<noteq>
   Inr (JObj [(''errors'', JArr [JObj
     [(''message'', JStr ''API Error 500''),
      (''extensions'', JObj
        [(''statusCode'', JNum 500),
         (''responseBody'', JObj [(''message'', JStr ''boom'')])])]])])\<close>
  by (simp add: execute_resolved [where r = \<open>\<lparr>status = 500,
        content_type = Some ''application/json'', body = Some ''{"message": "boom"}''\<rparr>\<close>]
      sample_fetch classify_parsed [where j = \<open>JObj [(''message'', JStr ''boom'')]\<close>]
      application_json_is_json sample_parse_def ok_def http_error_envelope_def
      string_of_nat_500)

text \<open>
  C3, amended. A response whose status is outside the range 200 to 299, whose content type
  declares JSON and whose body parses as JSON makes the method return an envelope with one
  error: its message is \<open>NCI PDC API HTTP Error <status>\<close> and its extensions are the
  status code and the parsed body.
\<close>

theorem http_error_envelope_shape:
  assumes "global_fetch rt PDC_GRAPHQL_ENDPOINT (outbound_request rt query variables) = Inr r"
    and "\<not> ok r"
    and "declares_json (content_type r)"
    and "json_parse rt (body_text r) = Some j"
  shows "executePdcGraphQLQuery rt query variables =
     Inr (JObj [(''errors'', JArr [JObj
       [(''message'', JStr (''NCI PDC API HTTP Error '' @ string_of_nat (status r))),
        (''extensions'', JObj
          [(''statusCode'', JNum (int (status r))),
           (''responseBody'', j)])]])])"
  using assms by (simp add: execute_resolved classify_parsed http_error_envelope_def)

theorem http_error_envelope_shape_witness:
  \<open>executePdcGraphQLQuery
     (sample_runtime
        (Inr \<lparr>status = 404, content_type = Some ''application/json; charset=utf-8'',
              body = Some ''{"message": "boom"}''\<rparr>))
     ''{ x }'' None =
   Inr (JObj [(''errors'', JArr [JObj
     [(''message'', JStr ''NCI PDC API HTTP Error 404''),
      (''extensions'', JObj
        [(''statusCode'', JNum 404),
         (''responseBody'', JObj [(''message'', JStr ''boom'')])])]])])\<close>
  using http_error_envelope_shape
    [where r = \<open>\<lparr>status = 404, content_type = Some ''application/json; charset=utf-8'',
                  body = Some ''{"message": "boom"}''\<rparr>\<close>
       and rt = \<open>sample_runtime
        (Inr \<lparr>status = 404, content_type = Some ''application/json; charset=utf-8'',
              body = Some ''{"message": "boom"}''\<rparr>)\<close>
       and j = \<open>JObj [(''message'', JStr ''boom'')]\<close>
       and query = \<open>''{ x }''\<close> and variables = None]
  by (simp add: sample_fetch ok_def declares_json_def sample_parse_def string_of_nat_404)

text \<open>
  C4, as the specification states it, at status 200 with the content type \<open>text/html\<close>:
  the message starts with \<open>NCI PDC API Error\<close>, not with \<open>API Error\<close>.
\<close>

theorem non_json_message_counterexample:
  \<open>executePdcGraphQLQuery
     (sample_runtime
        (Inr \<lparr>status = 200, content_type = Some ''text/html'', body = Some ''<html>''\<rparr>))
     ''{ x }'' None =
   Inr (JObj [(''errors'', JArr [JObj
     [(''message'', JStr ''NCI PDC API Error 200: Non-JSON response received.''),
      (''extensions'', JObj
        [(''statusCode'', JNum 200),
         (''contentType'', JStr ''text/html''),
         (''responseText'', JStr ''<html>'')])]])])
   \<and>
   executePdcGraphQLQuery
     (sample_runtime
        (Inr \<lparr>status = 200, content_type = Some ''text/html'', body = Some ''<html>''\<rparr>))
     ''{ x }'' None \<noteq>
   Inr (JObj [(''errors'', JArr [JObj
     [(''message'', JStr ''API Error 200: Non-JSON response received.''),
      (''extensions'', JObj
        [(''statusCode'', JNum 200),
         (''contentType'', JStr ''text/html''),
         (''responseText'', JStr ''<html>'')])]])])\<close>
  by (simp add: execute_resolved [where r = \<open>\<lparr>status = 200,
        content_type = Some ''text/html'', body = Some ''<html>''\<rparr>\<close>]
      sample_fetch classify_non_json text_html_not_json non_json_envelope_def
      string_of_nat_200 slice_0)

text \<open>
  C4, amended. A response whose content type does not declare JSON (the header may be
  absent), whatever its status, makes the method return an envelope with one error: its
  message is \<open>NCI PDC API Error <status>: Non-JSON response received.\<close> and its extensions
  are the status code, the content type as the header gave it (\<open>null\<close> when absent) and
  the first 1000 characters of the body text.
\<close>

theorem non_json_envelope_shape:
  assumes "global_fetch rt PDC_GRAPHQL_ENDPOINT (outbound_request rt query variables) = Inr r"
    and "\<not> declares_json (content_type r)"
  shows "executePdcGraphQLQuery rt query variables =
     Inr (JObj [(''errors'', JArr [JObj
       [(''message'', JStr (''NCI PDC API Error '' @ string_of_nat (status r)
                             @ '': Non-JSON response received.'')),
        (''extensions'', JObj
          [(''statusCode'', JNum (int (status r))),
           (''contentType'', (case content_type r of None \<Rightarrow> JNull | Some s \<Rightarrow> JStr s)),
           (''responseText'', JStr (take 1000 (body_text r)))])]])])"
  using assms
  by (simp add: execute_resolved classify_non_json non_json_envelope_def slice_0)

theorem non_json_envelope_shape_witness:
  "executePdcGraphQLQuery
     (sample_runtime
        (Inr \<lparr>status = 502, content_type = None, body = Some ''Bad Gateway''\<rparr>))
     ''{ x }'' None =
   Inr (JObj [(''errors'', JArr [JObj
     [(''message'', JStr ''NCI PDC API Error 502: Non-JSON response received.''),
      (''extensions'', JObj
        [(''statusCode'', JNum 502),
         (''contentType'', JNull),
         (''responseText'', JStr ''Bad Gateway'')])]])])"
  using non_json_envelope_shape
    [where r = "\<lparr>status = 502, content_type = None, body = Some ''Bad Gateway''\<rparr>"
       and rt = "sample_runtime
        (Inr \<lparr>status = 502, content_type = None, body = Some ''Bad Gateway''\<rparr>)"
       and query = "''{ x }''" and variables = None]
  by (simp add: sample_fetch declares_json_def string_of_nat_502)

text \<open>
  What the method does with a body that is declared JSON, is not JSON and is there: the
  outer \<open>catch\<close> answers, with the runtime's message for a body read twice.
\<close>

lemma execute_unparsed_body:
  assumes "global_fetch rt PDC_GRAPHQL_ENDPOINT (outbound_request rt query variables) = Inr r"
    and "declares_json (content_type r)"
    and "json_parse rt (body_text r) = None"
    and "body r = Some t"
  shows "executePdcGraphQLQuery rt query variables =
     Inr (client_error_envelope (body_used_error rt))"
  using assms by (simp add: execute_resolved classify_unparsed)

text \<open>
  C5. A response whose content type declares JSON and whose body does not parse should be
  answered with the envelope of lines 96 to 104: one error with the message
  \<open>... Error <status>: Failed to parse JSON response.\<close> and the extensions \<open>statusCode\<close>
  and \<open>responseText\<close>. At status 502 with the content type \<open>application/json\<close> and the
  body \<open><html>\<close> the method returns something else: \<open>response.json()\<close> (line 91) has used
  the body up, \<open>response.text()\<close> (line 94) rejects, and the outer \<open>catch\<close> returns its own
  envelope, which is neither the envelope that lines 96 to 104 build nor the one of the
  specification.
\<close>

theorem parse_failure_reread_rejects:
  \<open>executePdcGraphQLQuery
     (sample_runtime
        (Inr \<lparr>status = 502, content_type = Some ''application/json'', body = Some ''<html>''\<rparr>))
     ''{ x }'' None =
   Inr (JObj [(''errors'', JArr [JObj
     [(''message'', JStr ''Body has already been used''),
      (''extensions'', JObj [(''clientError'', JBool True)])]])])
   \<and>
   executePdcGraphQLQuery
     (sample_runtime
        (Inr \<lparr>status = 502, content_type = Some ''application/json'', body = Some ''<html>''\<rparr>))
     ''{ x }'' None \<noteq>
   Inr (JObj [(''errors'', JArr [JObj
     [(''message'', JStr ''NCI PDC API Error 502: Failed to parse JSON response.''),
      (''extensions'', JObj
        [(''statusCode'', JNum 502),
         (''responseText'', JStr ''<html>'')])]])])
   \<and>
   executePdcGraphQLQuery
     (sample_runtime
        (Inr \<lparr>status = 502, content_type = Some ''application/json'', body = Some ''<html>''\<rparr>))
     ''{ x }'' None \<noteq>
   Inr (JObj [(''errors'', JArr [JObj
     [(''message'', JStr ''API Error 502: Failed to parse JSON response.''),
      (''extensions'', JObj
        [(''statusCode'', JNum 502),
         (''responseText'', JStr ''<html>'')])]])])\<close>
  by (simp add: execute_unparsed_body [where r = \<open>\<lparr>status = 502,
        content_type = Some ''application/json'', body = Some ''<html>''\<rparr>\<close>
        and t = \<open>''<html>''\<close>]
      sample_fetch application_json_is_json sample_parse_def body_text_def
      client_error_envelope_def)

text \<open>
  C6. When the call of \<open>fetch\<close> itself throws, the method catches the exception and returns
  an envelope with one error, whose message is the exception's message for an \<open>Error\<close>
  value and its string form otherwise, and whose extensions are exactly
  \<open>{clientError: true}\<close>.
\<close>

theorem transport_exception_caught:
  assumes "global_fetch rt PDC_GRAPHQL_ENDPOINT (outbound_request rt query variables) = Inl e"
  shows "executePdcGraphQLQuery rt query variables =
     Inr (JObj [(''errors'', JArr [JObj
       [(''message'', JStr (case e of ErrorInstance m \<Rightarrow> m | NonError s \<Rightarrow> s)),
        (''extensions'', JObj [(''clientError'', JBool True)])]])])"
  using assms by (simp add: execute_rejected client_error_envelope_def)

theorem transport_exception_caught_witness:
  "executePdcGraphQLQuery
     (sample_runtime (Inl (ErrorInstance ''connection refused''))) ''{ x }'' None =
   Inr (JObj [(''errors'', JArr [JObj
     [(''message'', JStr ''connection refused''),
      (''extensions'', JObj [(''clientError'', JBool True)])]])])"
  using transport_exception_caught
    [of "sample_runtime (Inl (ErrorInstance ''connection refused''))" "''{ x }''" None
        "ErrorInstance ''connection refused''"]
  by (simp add: sample_fetch)

subsection \<open>Truncation\<close>



subsection \<open>The request\<close>

text \<open>
  C8. For every query and every optional variables mapping the method makes one request:
  a POST to the endpoint whose body is the serialization of an object with the member
  \<open>query\<close>, the query string as it was given, and with a member \<open>variables\<close> exactly when
  a variables mapping was given (then it is that mapping). What the method returns is
  what the upstream answers to that request, classified; no query is held back or changed
  on the way.
\<close>

theorem request_body_fields:
  "\<exists>sent.
     sent = JObj ((''query'', JStr query) #
              (case variables of None \<Rightarrow> [] | Some vs \<Rightarrow> [(''variables'', JObj vs)]))
     \<and> member ''query'' sent = Some (JStr query)
     \<and> (member ''variables'' sent \<noteq> None \<longleftrightarrow> variables \<noteq> None)
     \<and> (\<forall>vs. variables = Some vs \<longrightarrow> member ''variables'' sent = Some (JObj vs))
     \<and> executePdcGraphQLQuery rt query variables =
         (case global_fetch rt PDC_GRAPHQL_ENDPOINT
                 \<lparr> rq_method = ''POST'', rq_headers = headers,
                   rq_body = json_stringify rt sent \<rparr> of
            Inl e \<Rightarrow> Inr (client_error_envelope e)
          | Inr r \<Rightarrow>
              (case classify rt r of
                 Inl e \<Rightarrow> Inr (client_error_envelope e)
               | Inr result \<Rightarrow> Inr result))"
  by (cases variables)
     (simp_all add: executePdcGraphQLQuery_def try_block_def outbound_request_def
        bodyData_def member_def split: sum.splits)

text \<open>
  An upstream that answers only the POST carrying \<open>{ x }\<close> with variables: the query with
  variables gets its answer, the same query without variables does not.
\<close>

theorem request_body_fields_witness:
  \<open>executePdcGraphQLQuery selective_runtime ''{ x }'' (Some [(''id'', JStr ''01BR001'')]) =
     Inr (JObj [(''data'', JObj [(''x'', JNum 1)])])
   \<and> executePdcGraphQLQuery selective_runtime ''{ x }'' None =
     Inr (JObj [(''errors'', JArr [JObj
       [(''message'', JStr ''unexpected request''),
        (''extensions'', JObj [(''clientError'', JBool True)])]])])\<close>
  using request_body_fields [of "''{ x }''" "Some [(''id'', JStr ''01BR001'')]" selective_runtime]
    request_body_fields [of "''{ x }''" None selective_runtime]
  by (simp add: selective_runtime_def sample_stringify_def member_def
      PDC_GRAPHQL_ENDPOINT_def
      classify_parsed [where j = \<open>JObj [(''data'', JObj [(''x'', JNum 1)])]\<close>]
      application_json_is_json sample_parse_def body_text_def ok_def
      client_error_envelope_def)

subsection \<open>What counts as JSON\<close>

text \<open>
  C9. The method takes a response for JSON exactly when the content-type header is present
  and contains \<open>application/json\<close> as a substring. With such a header the body goes to
  the JSON parser: a parsed body is passed through or wrapped as an HTTP error, and a body
  that does not parse is not answered with the non-JSON envelope. With any other header,
  or none, the answer is the non-JSON envelope, whatever the status and the body; so it is
  for \<open>text/json\<close>.
\<close>

theorem json_classification:
  assumes "global_fetch rt PDC_GRAPHQL_ENDPOINT (outbound_request rt query variables) = Inr r"
  shows "((\<exists>s pre post. content_type r = Some s \<and> s = pre @ ''application/json'' @ post) \<longrightarrow>
            (\<forall>j. json_parse rt (body_text r) = Some j \<longrightarrow>
                executePdcGraphQLQuery rt query variables =
                  Inr (if ok r then j else http_error_envelope r j))
            \<and> (json_parse rt (body_text r) = None \<longrightarrow>
                executePdcGraphQLQuery rt query variables \<noteq>
                  Inr (non_json_envelope r (body_text r))))
       \<and> (\<not> (\<exists>s pre post. content_type r = Some s \<and> s = pre @ ''application/json'' @ post) \<longrightarrow>
            executePdcGraphQLQuery rt query variables =
              Inr (non_json_envelope r (body_text r)))"
proof -
  have declared:
    "(\<exists>s pre post. content_type r = Some s \<and> s = pre @ ''application/json'' @ post)
       = declares_json (content_type r)"
    by (rule declares_json_iff [symmetric])
  have main:
    "(declares_json (content_type r) \<longrightarrow>
        (\<forall>j. json_parse rt (body_text r) = Some j \<longrightarrow>
            executePdcGraphQLQuery rt query variables =
              Inr (if ok r then j else http_error_envelope r j))
        \<and> (json_parse rt (body_text r) = None \<longrightarrow>
            executePdcGraphQLQuery rt query variables \<noteq>
              Inr (non_json_envelope r (body_text r))))
     \<and> (\<not> declares_json (content_type r) \<longrightarrow>
          executePdcGraphQLQuery rt query variables =
            Inr (non_json_envelope r (body_text r)))"
  proof (cases "declares_json (content_type r)")
    case False
    with assms show ?thesis
      by (simp add: execute_resolved classify_non_json)
  next
    case True
    have parsed: "executePdcGraphQLQuery rt query variables =
        Inr (if ok r then j else http_error_envelope r j)"
      if "json_parse rt (body_text r) = Some j" for j
      using assms True that by (simp add: execute_resolved classify_parsed)
    have unparsed: "executePdcGraphQLQuery rt query variables \<noteq>
        Inr (non_json_envelope r (body_text r))"
      if "json_parse rt (body_text r) = None"
      using assms True that
      by (cases "body r")
         (simp_all add: execute_resolved classify_unparsed non_json_envelope_def
            parse_failure_envelope_def client_error_envelope_def)
    from True parsed unparsed show ?thesis
      by simp
  qed
  show ?thesis
    unfolding declared by (rule main)
qed

text \<open>
  Status 200 and the body \<open>{"data": {"x": 1}}\<close>: with the header \<open>text/json\<close> the answer
  is the non-JSON envelope, with \<open>application/json; charset=utf-8\<close> it is the parsed body.
\<close>

theorem json_classification_witness:
  \<open>executePdcGraphQLQuery
       (sample_runtime
          (Inr \<lparr>status = 200, content_type = Some ''text/json'',
                body = Some ''{"data": {"x": 1}}''\<rparr>))
       ''{ x }'' None =
     Inr (JObj [(''errors'', JArr [JObj
       [(''message'', JStr ''NCI PDC API Error 200: Non-JSON response received.''),
        (''extensions'', JObj
          [(''statusCode'', JNum 200),
           (''contentType'', JStr ''text/json''),
           (''responseText'', JStr ''{"data": {"x": 1}}'')])]])])
   \<and> executePdcGraphQLQuery
       (sample_runtime
          (Inr \<lparr>status = 200, content_type = Some ''application/json; charset=utf-8'',
                body = Some ''{"data": {"x": 1}}''\<rparr>))
       ''{ x }'' None =
     Inr (JObj [(''data'', JObj [(''x'', JNum 1)])])\<close>
proof
  let ?r = \<open>\<lparr>status = 200, content_type = Some ''text/json'',
              body = Some ''{"data": {"x": 1}}''\<rparr>\<close>
  have fetched: "global_fetch (sample_runtime (Inr ?r)) PDC_GRAPHQL_ENDPOINT
      (outbound_request (sample_runtime (Inr ?r)) ''{ x }'' None) = Inr ?r"
    by (simp add: sample_fetch)
  have other: "\<not> (\<exists>s pre post. content_type ?r = Some s
      \<and> s = pre @ ''application/json'' @ post)"
    unfolding declares_json_iff [symmetric] by (simp add: text_json_not_json)
  from json_classification [OF fetched] other
  have "executePdcGraphQLQuery (sample_runtime (Inr ?r)) ''{ x }'' None =
      Inr (non_json_envelope ?r (body_text ?r))"
    by blast
  then show \<open>executePdcGraphQLQuery (sample_runtime (Inr ?r)) ''{ x }'' None =
     Inr (JObj [(''errors'', JArr [JObj
       [(''message'', JStr ''NCI PDC API Error 200: Non-JSON response received.''),
        (''extensions'', JObj
          [(''statusCode'', JNum 200),
           (''contentType'', JStr ''text/json''),
           (''responseText'', JStr ''{"data": {"x": 1}}'')])]])])\<close>
    by (simp add: non_json_envelope_def string_of_nat_200 slice_0)
next
  let ?r = \<open>\<lparr>status = 200, content_type = Some ''application/json; charset=utf-8'',
              body = Some ''{"data": {"x": 1}}''\<rparr>\<close>
  let ?j = \<open>JObj [(''data'', JObj [(''x'', JNum 1)])]\<close>
  have fetched: "global_fetch (sample_runtime (Inr ?r)) PDC_GRAPHQL_ENDPOINT
      (outbound_request (sample_runtime (Inr ?r)) ''{ x }'' None) = Inr ?r"
    by (simp add: sample_fetch)
  have declared: "\<exists>s pre post. content_type ?r = Some s
      \<and> s = pre @ ''application/json'' @ post"
    unfolding declares_json_iff [symmetric] by (simp add: declares_json_def)
  have parsed: "json_parse (sample_runtime (Inr ?r)) (body_text ?r) = Some ?j"
    by (simp add: sample_fetch sample_parse_def)
  from json_classification [OF fetched] declared parsed
  have "executePdcGraphQLQuery (sample_runtime (Inr ?r)) ''{ x }'' None =
      Inr (if ok ?r then ?j else http_error_envelope ?r ?j)"
    by blast
  then show \<open>executePdcGraphQLQuery (sample_runtime (Inr ?r)) ''{ x }'' None = Inr ?j\<close>
    by (simp add: ok_def)
qed

subsection \<open>Routing\<close>

text \<open>
  C10. A request whose path is not \<open>/sse\<close> and does not start with \<open>/sse/\<close> is answered
  with status 404, the content type \<open>text/plain\<close> and a fixed body that lists \<open>/sse\<close>;
  the handler hands a request to the streaming transport exactly when its path is \<open>/sse\<close>
  or starts with \<open>/sse/\<close>.
\<close>

theorem unknown_path_not_found:
  "(pathname \<noteq> ''/sse'' \<and> \<not> prefix ''/sse/'' pathname \<longrightarrow>
      fetch pathname = Reply
        \<lparr> reply_status = 404,
          reply_headers = [(''Content-Type'', ''text/plain'')],
          reply_body = ''NCI PDC MCP Server - Path not found.\<newline>Available MCP paths:\<newline>- /sse (for Server-Sent Events transport)'' \<rparr>)
   \<and> (fetch pathname = ServeSSE ''/sse'' \<longleftrightarrow> pathname = ''/sse'' \<or> prefix ''/sse/'' pathname)
   \<and> ((\<exists>mount. fetch pathname = ServeSSE mount) \<longleftrightarrow>
        pathname = ''/sse'' \<or> prefix ''/sse/'' pathname)
   \<and> str_includes (reply_body not_found_reply) ''/sse''"
  by (simp add: fetch_def startsWith_def not_found_reply_def)

theorem unknown_path_not_found_witness:
  "fetch ''/health'' = Reply
        \<lparr> reply_status = 404,
          reply_headers = [(''Content-Type'', ''text/plain'')],
          reply_body = ''NCI PDC MCP Server - Path not found.\<newline>Available MCP paths:\<newline>- /sse (for Server-Sent Events transport)'' \<rparr>
   \<and> fetch ''/sse/message'' = ServeSSE ''/sse''"
  using unknown_path_not_found [of "''/health''"] unknown_path_not_found [of "''/sse/message''"]
  by simp

end
